theory Spec2Isabelle
  imports Main "HOL-Library.Sublist"
begin

section \<open>The filestream client of the backup and restore tools\<close>

text \<open>
  A shallow embedding of \<^verbatim>\<open>tools/xstore/core/backup_restore/storage/filestream_client.py\<close>.
  The client builds the argument list of an external transfer binary, starts it as a child
  process with one of its standard streams redirected, waits for it and turns a non-zero
  return code into an exception.
\<close>

subsection \<open>Enumerations\<close>

datatype BackupStorage = OSS | SFTP | S3

datatype ClientAction =
  DownloadOss | UploadOss | DownloadSsh | UploadSsh | DownloadMinio | UploadMinio

text \<open>The \<^verbatim>\<open>.value\<close> of an action, as the enumeration declares it.\<close>

fun action_value :: "ClientAction \<Rightarrow> string" where
  "action_value DownloadOss = ''downloadOss''"
| "action_value UploadOss = ''uploadOss''"
| "action_value DownloadSsh = ''DownloadSsh''"
| "action_value UploadSsh = ''uploadSsh''"
| "action_value DownloadMinio = ''downloadMinio''"
| "action_value UploadMinio = ''uploadMinio''"

text \<open>
  The \<^verbatim>\<open>storage\<close> argument of the constructor is annotated \<^verbatim>\<open>BackupStorage\<close>, but
  Python does not enforce the annotation: a caller can pass a member of the enumeration or any
  other plain value. \<^verbatim>\<open>BackupStorage\<close> has no mixin type, so a string such as
  \<^verbatim>\<open>"OSS"\<close> is not equal to the member \<^verbatim>\<open>BackupStorage.OSS\<close>.
\<close>

datatype storage_value = Member BackupStorage | PyNone | PyStr string

subsection \<open>Errors\<close>

text \<open>
  \<open>OSError\<close> stands for the exceptions of \<^verbatim>\<open>open\<close>, \<^verbatim>\<open>os.path.getsize\<close> and
  \<^verbatim>\<open>subprocess.Popen\<close> (file not found, permission denied, \dots), with the path concerned.
  \<open>AttributeError\<close> is what \<^verbatim>\<open>None.value\<close> raises. \<open>FilestreamException\<close> carries its message.
\<close>

datatype error =
  NotImplementedError
| AttributeError
| OSError string
| FilestreamException string

subsection \<open>Decimal text of integers\<close>

text \<open>Python's \<^verbatim>\<open>str\<close> on an integer, used by \<^verbatim>\<open>"%s" % return_code\<close> and \<^verbatim>\<open>str(file_size)\<close>.\<close>

definition digit :: "nat \<Rightarrow> char" where
  "digit d = ''0123456789'' ! (d mod 10)"

function str_nat :: "nat \<Rightarrow> string" where
  "str_nat n = (if n < 10 then [digit n] else str_nat (n div 10) @ [digit (n mod 10)])"
  by pat_completeness auto
termination
  by (relation "measure (\<lambda>n. n)") auto

declare str_nat.simps [simp del]

definition str_int :: "int \<Rightarrow> string" where
  "str_int i = (if i < 0 then CHR ''-'' # str_nat (nat (- i)) else str_nat (nat i))"

subsection \<open>The client object\<close>

text \<open>
  \<^verbatim>\<open>core.context.Context\<close> is not part of the module; the client only reads two strings
  from it, the path of the transfer binary and the path of the host-info file.
\<close>

record Context =
  ctx_filestream_client :: string
  ctx_host_info :: string

record FileStreamClient =
  client :: string
  host_info :: string
  storage :: storage_value
  sink :: string
  download_action :: "ClientAction option"
  upload_action :: "ClientAction option"

definition init_action :: "FileStreamClient \<Rightarrow> error + FileStreamClient" where
  "init_action self =
     (if storage self = Member OSS then
        Inr (self\<lparr>download_action := Some DownloadOss, upload_action := Some UploadOss\<rparr>)
      else if storage self = Member SFTP then
        Inr (self\<lparr>download_action := Some DownloadSsh, upload_action := Some UploadSsh\<rparr>)
      else if storage self = Member S3 then
        Inr (self\<lparr>download_action := Some DownloadMinio, upload_action := Some UploadMinio\<rparr>)
      else Inl NotImplementedError)"

text \<open>\<^verbatim>\<open>__init__\<close>: the fields are set, the actions start as \<^verbatim>\<open>None\<close>, then \<^verbatim>\<open>init_action\<close> runs.\<close>

definition init :: "Context \<Rightarrow> storage_value \<Rightarrow> string \<Rightarrow> error + FileStreamClient" where
  "init context storage_arg sink_arg =
     init_action \<lparr>client = ctx_filestream_client context,
                  host_info = ctx_host_info context,
                  storage = storage_arg,
                  sink = sink_arg,
                  download_action = None,
                  upload_action = None\<rparr>"

subsection \<open>Command lines\<close>

text \<open>
  The argument list of \<^verbatim>\<open>upload_from_stdin\<close>: five fixed elements, then up to two
  appended buffer-size flags per backend, each under its own \<^verbatim>\<open>if\<close>.
\<close>

definition upload_cmd :: "FileStreamClient \<Rightarrow> string \<Rightarrow> bool \<Rightarrow> string \<Rightarrow> error + string list" where
  "upload_cmd self remote_path is_string_input file_size =
     (case upload_action self of
        None \<Rightarrow> Inl AttributeError
      | Some a \<Rightarrow>
          let cmd0 = [client self,
                      ''--meta.action='' @ action_value a,
                      ''--meta.sink='' @ sink self,
                      ''--meta.filename='' @ remote_path,
                      ''--hostInfoFilePath='' @ host_info self];
              cmd1 = (if is_string_input \<and> storage self = Member OSS
                      then cmd0 @ [''--meta.ossBufferSize=102400''] else cmd0);
              cmd2 = (if is_string_input \<and> storage self = Member S3
                      then cmd1 @ [''--meta.minioBufferSize=102400''] else cmd1);
              cmd3 = (if file_size \<noteq> '''' \<and> storage self = Member OSS
                      then cmd2 @ [''--meta.ossBufferSize='' @ file_size] else cmd2);
              cmd4 = (if file_size \<noteq> '''' \<and> storage self = Member S3
                      then cmd3 @ [''--meta.minioBufferSize='' @ file_size] else cmd3)
          in Inr cmd4)"

definition download_cmd :: "FileStreamClient \<Rightarrow> string \<Rightarrow> error + string list" where
  "download_cmd self remote_path =
     (case download_action self of
        None \<Rightarrow> Inl AttributeError
      | Some a \<Rightarrow>
          Inr [client self,
               ''--meta.action='' @ action_value a,
               ''--meta.sink='' @ sink self,
               ''--meta.filename='' @ remote_path,
               ''--hostInfoFilePath='' @ host_info self])"

text \<open>
  The buffer-size flags among the arguments of a command (everything after the executable):
  the arguments that start with one of the two flag names.
\<close>

definition is_buffer_flag :: "string \<Rightarrow> bool" where
  "is_buffer_flag arg =
     (prefix ''--meta.ossBufferSize='' arg \<or> prefix ''--meta.minioBufferSize='' arg)"

definition buffer_flags :: "string list \<Rightarrow> string list" where
  "buffer_flags cmd = filter is_buffer_flag (tl cmd)"

subsection \<open>The operating system as the client sees it\<close>

text \<open>
  What a child process reads from and writes to. \<^verbatim>\<open>Popen\<close> leaves a stream that is not
  passed (\<^verbatim>\<open>None\<close>) connected to the stream of the calling process; a file object passes
  its descriptor, so the child reads or writes the file itself; \<^verbatim>\<open>subprocess.PIPE\<close>
  collects the output in a pipe, whose reading end can be the input of another child.
\<close>

datatype in_stream = InheritedStdin | FileReader string | PipeReader string

datatype out_stream = InheritedStdout | FileWriter string | PipeWriter

datatype err_stream = InheritedStderr | SysStderr | ErrWriter string

datatype event =
  LogInfo string "string list"
| Spawned "string list" in_stream out_stream err_stream

text \<open>The outcome of a child that was started and has exited: return code, bytes written
  to its standard output, and the state it leaves outside the machine (the remote storage).\<close>

datatype 'x child = Exited int string 'x

record 'x world =
  files :: "string \<rightharpoonup> string"
  open_handles :: "string list"
  stdin_data :: string
  stdout_data :: string
  outside :: 'x
  events :: "event list"

text \<open>
  The parts the module does not decide: which paths \<^verbatim>\<open>open\<close> accepts, and what a
  program does with its arguments and its input (\<open>None\<close>: it cannot be started and
  \<^verbatim>\<open>Popen\<close> raises).
\<close>

record 'x env =
  can_read :: "string \<Rightarrow> bool"
  can_write :: "string \<Rightarrow> bool"
  program :: "string list \<Rightarrow> string \<Rightarrow> 'x \<Rightarrow> 'x child option"

text \<open>\<^verbatim>\<open>open(path, "r")\<close> and \<^verbatim>\<open>open(path, 'w')\<close>; the latter creates or truncates.\<close>

definition open_r :: "'x env \<Rightarrow> string \<Rightarrow> 'x world \<Rightarrow> error + 'x world" where
  "open_r e path w =
     (if can_read e path \<and> files w path \<noteq> None
      then Inr (w\<lparr>open_handles := path # open_handles w\<rparr>)
      else Inl (OSError path))"

definition open_w :: "'x env \<Rightarrow> string \<Rightarrow> 'x world \<Rightarrow> error + 'x world" where
  "open_w e path w =
     (if can_write e path
      then Inr (w\<lparr>files := (files w)(path \<mapsto> []), open_handles := path # open_handles w\<rparr>)
      else Inl (OSError path))"

text \<open>Leaving a \<^verbatim>\<open>with open(...)\<close> block closes the file, on return and on exception.\<close>

definition close_file :: "string \<Rightarrow> 'x world \<Rightarrow> 'x world" where
  "close_file path w = w\<lparr>open_handles := remove1 path (open_handles w)\<rparr>"

definition getsize :: "'x world \<Rightarrow> string \<Rightarrow> error + nat" where
  "getsize w path =
     (case files w path of None \<Rightarrow> Inl (OSError path) | Some content \<Rightarrow> Inr (length content))"

definition read_stream :: "in_stream \<Rightarrow> 'x world \<Rightarrow> string" where
  "read_stream s w =
     (case s of
        InheritedStdin \<Rightarrow> stdin_data w
      | FileReader path \<Rightarrow> (case files w path of None \<Rightarrow> [] | Some content \<Rightarrow> content)
      | PipeReader bytes \<Rightarrow> bytes)"

definition write_stream :: "out_stream \<Rightarrow> string \<Rightarrow> 'x world \<Rightarrow> 'x world" where
  "write_stream s bytes w =
     (case s of
        InheritedStdout \<Rightarrow> w\<lparr>stdout_data := stdout_data w @ bytes\<rparr>
      | FileWriter path \<Rightarrow>
          w\<lparr>files := (files w)(path \<mapsto>
                (case files w path of None \<Rightarrow> [] | Some old \<Rightarrow> old) @ bytes)\<rparr>
      | PipeWriter \<Rightarrow> w)"

definition executable :: "string list \<Rightarrow> string" where
  "executable cmd = (case cmd of [] \<Rightarrow> [] | x # _ \<Rightarrow> x)"

text \<open>
  \<^verbatim>\<open>with subprocess.Popen(cmd, ...) as p\<close> up to the moment the child has exited: the
  child is started on the given streams, reads its input, writes its output and returns
  its code. The result is the return code, the bytes the child wrote, and the new world.
\<close>

definition Popen ::
  "'x env \<Rightarrow> string list \<Rightarrow> in_stream \<Rightarrow> out_stream \<Rightarrow> err_stream \<Rightarrow> 'x world
     \<Rightarrow> error + (int \<times> string \<times> 'x world)" where
  "Popen e cmd sin sout serr w =
     (case program e cmd (read_stream sin w) (outside w) of
        None \<Rightarrow> Inl (OSError (executable cmd))
      | Some (Exited return_code out x) \<Rightarrow>
          Inr (return_code, out,
               write_stream sout out
                 (w\<lparr>outside := x, events := events w @ [Spawned cmd sin sout serr]\<rparr>)))"

definition log_info :: "string \<Rightarrow> string list \<Rightarrow> 'x world \<Rightarrow> 'x world" where
  "log_info msg cmd w = w\<lparr>events := events w @ [LogInfo msg cmd]\<rparr>"

subsection \<open>The transfer operations\<close>

definition upload_from_stdin ::
  "'x env \<Rightarrow> FileStreamClient \<Rightarrow> string \<Rightarrow> in_stream \<Rightarrow> err_stream \<Rightarrow> bool \<Rightarrow> bool \<Rightarrow> string
     \<Rightarrow> 'x world \<Rightarrow> (error + unit) \<times> 'x world" where
  "upload_from_stdin e self remote_path stdin stderr logger is_string_input file_size w =
     (case upload_cmd self remote_path is_string_input file_size of
        Inl err \<Rightarrow> (Inl err, w)
      | Inr cmd \<Rightarrow>
          let w1 = (if logger then log_info ''Upload command: '' cmd w else w) in
          (case Popen e cmd stdin InheritedStdout stderr w1 of
             Inl err \<Rightarrow> (Inl err, w1)
           | Inr (return_code, out, w2) \<Rightarrow>
               if return_code \<noteq> 0
               then (Inl (FilestreamException
                            (''Failed to upload, return code: '' @ str_int return_code)), w2)
               else (Inr (), w2)))"

definition download_to_stdout ::
  "'x env \<Rightarrow> FileStreamClient \<Rightarrow> string \<Rightarrow> out_stream \<Rightarrow> err_stream \<Rightarrow> bool
     \<Rightarrow> 'x world \<Rightarrow> (error + unit) \<times> 'x world" where
  "download_to_stdout e self remote_path stdout stderr logger w =
     (case download_cmd self remote_path of
        Inl err \<Rightarrow> (Inl err, w)
      | Inr cmd \<Rightarrow>
          let w1 = (if logger then log_info ''Download command: '' cmd w else w) in
          (case Popen e cmd InheritedStdin stdout stderr w1 of
             Inl err \<Rightarrow> (Inl err, w1)
           | Inr (return_code, out, w2) \<Rightarrow>
               if return_code \<noteq> 0
               then (Inl (FilestreamException
                            (''Failed to download, return code: '' @ str_int return_code)), w2)
               else (Inr (), w2)))"

definition upload_from_file ::
  "'x env \<Rightarrow> FileStreamClient \<Rightarrow> string \<Rightarrow> string \<Rightarrow> err_stream \<Rightarrow> bool
     \<Rightarrow> 'x world \<Rightarrow> (error + unit) \<times> 'x world" where
  "upload_from_file e self remote local stderr logger w =
     (case open_r e local w of
        Inl err \<Rightarrow> (Inl err, w)
      | Inr w1 \<Rightarrow>
          (case getsize w1 local of
             Inl err \<Rightarrow> (Inl err, close_file local w1)
           | Inr file_size \<Rightarrow>
               (case upload_from_stdin e self remote (FileReader local) stderr logger False
                       (str_nat file_size) w1 of
                  (r, w2) \<Rightarrow> (r, close_file local w2))))"

definition download_to_file ::
  "'x env \<Rightarrow> FileStreamClient \<Rightarrow> string \<Rightarrow> string \<Rightarrow> err_stream \<Rightarrow> bool
     \<Rightarrow> 'x world \<Rightarrow> (error + unit) \<times> 'x world" where
  "download_to_file e self remote local stderr logger w =
     (case open_w e local w of
        Inl err \<Rightarrow> (Inl err, w)
      | Inr w1 \<Rightarrow>
          (case download_to_stdout e self remote (FileWriter local) stderr logger w1 of
             (r, w2) \<Rightarrow> (r, close_file local w2)))"

text \<open>
  \<^verbatim>\<open>upload_from_string\<close> starts \<^verbatim>\<open>echo\<close> with its output on a pipe and hands the
  reading end to \<^verbatim>\<open>upload_from_stdin\<close>. The return code of \<^verbatim>\<open>echo\<close> is not looked at.
\<close>

definition upload_from_string ::
  "'x env \<Rightarrow> FileStreamClient \<Rightarrow> string \<Rightarrow> string \<Rightarrow> err_stream \<Rightarrow> bool
     \<Rightarrow> 'x world \<Rightarrow> (error + unit) \<times> 'x world" where
  "upload_from_string e self remote string stderr logger w =
     (let echo_cmd = [''echo'', string] in
      case Popen e echo_cmd InheritedStdin PipeWriter InheritedStderr w of
        Inl err \<Rightarrow> (Inl err, w)
      | Inr (return_code, out, w1) \<Rightarrow>
          upload_from_stdin e self remote (PipeReader out) stderr logger True '''' w1)"

subsection \<open>Example inputs\<close>

definition example_context :: Context where
  "example_context = \<lparr>ctx_filestream_client = ''/tools/filestream_client'',
                       ctx_host_info = ''/tools/hostinfo.json''\<rparr>"

text \<open>The clients that \<open>init example_context (Member b) ''backup''\<close> constructs.\<close>

definition example_client :: "BackupStorage \<Rightarrow> FileStreamClient" where
  "example_client b =
     \<lparr>client = ''/tools/filestream_client'', host_info = ''/tools/hostinfo.json'',
      storage = Member b, sink = ''backup'',
      download_action =
        Some (case b of OSS \<Rightarrow> DownloadOss | SFTP \<Rightarrow> DownloadSsh | S3 \<Rightarrow> DownloadMinio),
      upload_action =
        Some (case b of OSS \<Rightarrow> UploadOss | SFTP \<Rightarrow> UploadSsh | S3 \<Rightarrow> UploadMinio)\<rparr>"

text \<open>
  A machine on which \<^verbatim>\<open>echo\<close> prints its argument and a newline, and the transfer binary
  keeps what it reads (the outside state is the list of payloads received), prints nothing
  and returns the code \<open>rc\<close>.
\<close>

definition example_program :: "int \<Rightarrow> string list \<Rightarrow> string \<Rightarrow> string list \<Rightarrow> string list child option" where
  "example_program rc cmd input x =
     (if executable cmd = ''echo''
      then Some (Exited 0 (concat (tl cmd) @ ''\<newline>'') x)
      else Some (Exited rc [] (x @ [input])))"

text \<open>A stub binary that copies its input to its output and returns 0.\<close>

definition echoing_program :: "string list \<Rightarrow> string \<Rightarrow> string list \<Rightarrow> string list child option" where
  "echoing_program cmd input x = Some (Exited 0 input x)"

definition example_env ::
  "(string list \<Rightarrow> string \<Rightarrow> string list \<Rightarrow> string list child option) \<Rightarrow> string list env" where
  "example_env p = \<lparr>can_read = (\<lambda>path. path \<noteq> ''/root/secret''),
                     can_write = (\<lambda>path. path \<noteq> ''/proc/version''),
                     program = p\<rparr>"

definition example_world :: "string list world" where
  "example_world = \<lparr>files = [''/data/a.txt'' \<mapsto> ''abc''],
                     open_handles = [],
                     stdin_data = ''typed'',
                     stdout_data = [],
                     outside = [],
                     events = []\<rparr>"

subsection \<open>Decimal text is injective\<close>

lemma digit_inj: "a < 10 \<Longrightarrow> b < 10 \<Longrightarrow> digit a = digit b \<Longrightarrow> a = b"
proof -
  assume a: "a < 10" and b: "b < 10" and eq: "digit a = digit b"
  have d: "distinct ''0123456789''" by simp
  have "''0123456789'' ! a = ''0123456789'' ! b" using eq a b by (simp add: digit_def)
  then show "a = b" using d a b by (simp add: nth_eq_iff_index_eq)
qed

lemma digit_not_minus: "digit d \<noteq> CHR ''-''"
proof -
  have "d mod 10 < length ''0123456789''" by simp
  then have "digit d \<in> set ''0123456789''" unfolding digit_def by (rule nth_mem)
  then show ?thesis by auto
qed

lemma str_nat_nonempty: "str_nat n \<noteq> []"
  by (subst str_nat.simps) simp

lemma str_nat_hd: "hd (str_nat n) \<noteq> CHR ''-''"
proof (induction n rule: str_nat.induct)
  case (1 n)
  show ?case
  proof (cases "n < 10")
    case True
    then show ?thesis by (subst str_nat.simps) (simp add: digit_not_minus)
  next
    case False
    then show ?thesis using 1 str_nat_nonempty [of "n div 10"]
      by (subst str_nat.simps) simp
  qed
qed

lemma str_nat_length_ge2: "\<not> n < 10 \<Longrightarrow> 2 \<le> length (str_nat n)"
  using str_nat_nonempty [of "n div 10"]
  by (subst str_nat.simps) (cases "str_nat (n div 10)"; simp)

lemma str_nat_inj: "str_nat n = str_nat m \<Longrightarrow> n = m"
proof (induction n arbitrary: m rule: str_nat.induct)
  case (1 n)
  show ?case
  proof (cases "n < 10")
    case n: True
    show ?thesis
    proof (cases "m < 10")
      case True
      with n 1(2) show ?thesis
        by (simp add: str_nat.simps [of n] str_nat.simps [of m] digit_inj)
    next
      case False
      from 1(2) n have "str_nat m = [digit n]"
        by (simp add: str_nat.simps [of n])
      then have "length (str_nat m) = 1" by simp
      with str_nat_length_ge2 [OF False] show ?thesis by simp
    qed
  next
    case n: False
    show ?thesis
    proof (cases "m < 10")
      case True
      from 1(2) True have "length (str_nat n) = 1"
        by (simp add: str_nat.simps [of m])
      with str_nat_length_ge2 [OF n] show ?thesis by simp
    next
      case False
      from 1(2) n False have
        "str_nat (n div 10) @ [digit (n mod 10)] = str_nat (m div 10) @ [digit (m mod 10)]"
        by (simp add: str_nat.simps [of n] str_nat.simps [of m])
      then have a: "str_nat (n div 10) = str_nat (m div 10)"
        and b: "digit (n mod 10) = digit (m mod 10)" by simp_all
      from 1(1) [OF n a] have "n div 10 = m div 10" .
      moreover from b have "n mod 10 = m mod 10" by (intro digit_inj) simp_all
      ultimately show ?thesis by (metis div_mult_mod_eq)
    qed
  qed
qed

lemma str_int_inj: "str_int a = str_int b \<Longrightarrow> a = b"
proof -
  assume eq: "str_int a = str_int b"
  have neg: "CHR ''-'' # str_nat k \<noteq> str_nat j" for k j
    using str_nat_hd [of j] str_nat_nonempty [of j] by (cases "str_nat j") auto
  show "a = b"
  proof (cases "a < 0"; cases "b < 0")
    assume "a < 0" "b < 0"
    with eq have "nat (- a) = nat (- b)" by (simp add: str_int_def str_nat_inj)
    with \<open>a < 0\<close> \<open>b < 0\<close> show ?thesis by simp
  next
    assume "a < 0" "\<not> b < 0"
    with eq neg show ?thesis by (simp add: str_int_def)
  next
    assume "\<not> a < 0" "b < 0"
    with eq neg [of "nat (- b)" "nat a"] show ?thesis by (simp add: str_int_def)
  next
    assume "\<not> a < 0" "\<not> b < 0"
    with eq have "nat a = nat b" by (simp add: str_int_def str_nat_inj)
    with \<open>\<not> a < 0\<close> \<open>\<not> b < 0\<close> show ?thesis by simp
  qed
qed

subsection \<open>Construction\<close>

lemma init_example: "init example_context (Member b) ''backup'' = Inr (example_client b)"
  by (cases b) (simp_all add: init_def init_action_def example_context_def example_client_def)

lemma init_Inr:
  assumes "init ctx st snk = Inr self"
  shows "\<exists>b. st = Member b \<and>
       self = \<lparr>client = ctx_filestream_client ctx, host_info = ctx_host_info ctx,
               storage = Member b, sink = snk,
               download_action =
                 Some (case b of OSS \<Rightarrow> DownloadOss | SFTP \<Rightarrow> DownloadSsh | S3 \<Rightarrow> DownloadMinio),
               upload_action =
                 Some (case b of OSS \<Rightarrow> UploadOss | SFTP \<Rightarrow> UploadSsh | S3 \<Rightarrow> UploadMinio)\<rparr>"
  using assms by (auto simp: init_def init_action_def split: if_splits)

lemma init_upload_cmd:
  assumes "init ctx st snk = Inr self"
  shows "\<exists>cmd. upload_cmd self remote_path is_string_input file_size = Inr cmd"
  using init_Inr [OF assms] by (auto simp: upload_cmd_def Let_def)

lemma init_download_cmd:
  assumes "init ctx st snk = Inr self"
  shows "\<exists>cmd. download_cmd self remote_path = Inr cmd"
  using init_Inr [OF assms] by (auto simp: download_cmd_def)

subsection \<open>What one transfer does to the world\<close>

lemma read_stream_events [simp]: "read_stream s (w\<lparr>events := evs\<rparr>) = read_stream s w"
  by (cases s) (simp_all add: read_stream_def)

lemma upload_from_stdin_exited:
  assumes "upload_cmd self remote_path is_string_input file_size = Inr cmd"
    and "program e cmd (read_stream stdin w) (outside w) = Some (Exited rc out x)"
  shows "upload_from_stdin e self remote_path stdin stderr logger is_string_input file_size w =
           (if rc = 0 then Inr ()
            else Inl (FilestreamException (''Failed to upload, return code: '' @ str_int rc)),
            w\<lparr>outside := x,
              events := events w @ (if logger then [LogInfo ''Upload command: '' cmd] else [])
                          @ [Spawned cmd stdin InheritedStdout stderr],
              stdout_data := stdout_data w @ out\<rparr>)"
  using assms
  by (simp add: upload_from_stdin_def Popen_def Let_def write_stream_def log_info_def)

lemma download_to_stdout_exited:
  assumes "download_cmd self remote_path = Inr cmd"
    and "program e cmd (stdin_data w) (outside w) = Some (Exited rc out x)"
  shows "download_to_stdout e self remote_path stdout stderr logger w =
           (if rc = 0 then Inr ()
            else Inl (FilestreamException (''Failed to download, return code: '' @ str_int rc)),
            write_stream stdout out
              (w\<lparr>outside := x,
                 events := events w @ (if logger then [LogInfo ''Download command: '' cmd] else [])
                          @ [Spawned cmd InheritedStdin stdout stderr]\<rparr>))"
  using assms
  by (simp add: download_to_stdout_def Popen_def Let_def log_info_def read_stream_def)

lemma events_write_stream [simp]: "events (write_stream s bytes w) = events w"
  by (cases s) (simp_all add: write_stream_def)

lemma open_handles_write_stream [simp]: "open_handles (write_stream s bytes w) = open_handles w"
  by (cases s) (simp_all add: write_stream_def)

lemma upload_from_stdin_events:
  assumes "upload_cmd self remote_path is_string_input file_size = Inr cmd"
  shows "events (snd (upload_from_stdin e self remote_path stdin stderr logger
                        is_string_input file_size w)) =
           events w @ (if logger then [LogInfo ''Upload command: '' cmd] else [])
             @ (if program e cmd (read_stream stdin w) (outside w) = None then []
                else [Spawned cmd stdin InheritedStdout stderr])"
  using assms
  by (auto simp: upload_from_stdin_def Popen_def Let_def log_info_def
           split: option.splits child.splits)

lemma download_to_stdout_events:
  assumes "download_cmd self remote_path = Inr cmd"
  shows "events (snd (download_to_stdout e self remote_path stdout stderr logger w)) =
           events w @ (if logger then [LogInfo ''Download command: '' cmd] else [])
             @ (if program e cmd (stdin_data w) (outside w) = None then []
                else [Spawned cmd InheritedStdin stdout stderr])"
  using assms
  by (auto simp: download_to_stdout_def Popen_def Let_def log_info_def read_stream_def
           split: option.splits child.splits)

lemma upload_from_stdin_handles:
  "open_handles (snd (upload_from_stdin e self remote_path stdin stderr logger
                        is_string_input file_size w)) = open_handles w"
  by (auto simp: upload_from_stdin_def Popen_def Let_def log_info_def
           split: sum.splits option.splits child.splits)

lemma download_to_stdout_handles:
  "open_handles (snd (download_to_stdout e self remote_path stdout stderr logger w)) =
     open_handles w"
  by (auto simp: download_to_stdout_def Popen_def Let_def log_info_def
           split: sum.splits option.splits child.splits)

subsection \<open>Transfers on files\<close>

lemma upload_from_file_opened:
  assumes "can_read e local" and "files w local = Some content"
  shows "upload_from_file e self remote local stderr logger w =
           (fst (upload_from_stdin e self remote (FileReader local) stderr logger False
                   (str_nat (length content)) (w\<lparr>open_handles := local # open_handles w\<rparr>)),
            close_file local
              (snd (upload_from_stdin e self remote (FileReader local) stderr logger False
                      (str_nat (length content)) (w\<lparr>open_handles := local # open_handles w\<rparr>))))"
  using assms by (simp add: upload_from_file_def open_r_def getsize_def split_beta)

lemma upload_from_file_unopened:
  assumes "\<not> (can_read e local \<and> files w local \<noteq> None)"
  shows "upload_from_file e self remote local stderr logger w = (Inl (OSError local), w)"
  using assms by (auto simp: upload_from_file_def open_r_def)

lemma download_to_file_opened:
  assumes "can_write e local"
  shows "download_to_file e self remote local stderr logger w =
           (fst (download_to_stdout e self remote (FileWriter local) stderr logger
                   (w\<lparr>files := (files w)(local \<mapsto> []),
                      open_handles := local # open_handles w\<rparr>)),
            close_file local
              (snd (download_to_stdout e self remote (FileWriter local) stderr logger
                      (w\<lparr>files := (files w)(local \<mapsto> []),
                         open_handles := local # open_handles w\<rparr>))))"
  using assms by (simp add: download_to_file_def open_w_def split_beta)

section \<open>The claims\<close>

text \<open>
  C3. For each of the three members of \<open>BackupStorage\<close>, construction succeeds and leaves
  exactly the pairing OSS: (DownloadOss, UploadOss), SFTP: (DownloadSsh, UploadSsh),
  S3: (DownloadMinio, UploadMinio) in the two action fields; neither field stays \<open>None\<close>.
\<close>

theorem init_action_pairing:
  "init ctx (Member OSS) snk =
     Inr \<lparr>client = ctx_filestream_client ctx, host_info = ctx_host_info ctx,
          storage = Member OSS, sink = snk,
          download_action = Some DownloadOss, upload_action = Some UploadOss\<rparr>
   \<and> init ctx (Member SFTP) snk =
     Inr \<lparr>client = ctx_filestream_client ctx, host_info = ctx_host_info ctx,
          storage = Member SFTP, sink = snk,
          download_action = Some DownloadSsh, upload_action = Some UploadSsh\<rparr>
   \<and> init ctx (Member S3) snk =
     Inr \<lparr>client = ctx_filestream_client ctx, host_info = ctx_host_info ctx,
          storage = Member S3, sink = snk,
          download_action = Some DownloadMinio, upload_action = Some UploadMinio\<rparr>"
  by (simp add: init_def init_action_def)

text \<open>
  C4. For every storage value outside the three members, the constructor itself raises
  \<open>NotImplementedError\<close>: no client object comes back on which a transfer could be called.
\<close>

theorem init_unrecognized:
  "st \<notin> {Member OSS, Member SFTP, Member S3} \<Longrightarrow> init ctx st snk = Inl NotImplementedError"
  by (simp add: init_def init_action_def)

theorem init_unrecognized_witness:
  "PyStr ''OSS'' \<notin> {Member OSS, Member SFTP, Member S3}
   \<and> init example_context (PyStr ''OSS'') ''backup'' = Inl NotImplementedError"
  using init_unrecognized [of "PyStr ''OSS''" example_context "''backup''"] by simp

text \<open>
  C10. For every backend and remote path, the command of \<open>download_to_stdout\<close> is the five
  elements executable, action, sink, filename, host-info path, in this order, with no
  buffer-size flag among its arguments; and this is the command the operation logs and
  starts.
\<close>

theorem download_cmd_shape:
  assumes "init ctx (Member b) snk = Inr self"
    and "cmd = [ctx_filestream_client ctx,
                ''--meta.action='' @ action_value
                   (case b of OSS \<Rightarrow> DownloadOss | SFTP \<Rightarrow> DownloadSsh | S3 \<Rightarrow> DownloadMinio),
                ''--meta.sink='' @ snk,
                ''--meta.filename='' @ remote_path,
                ''--hostInfoFilePath='' @ ctx_host_info ctx]"
  shows "download_cmd self remote_path = Inr cmd
       \<and> length cmd = 5
       \<and> buffer_flags cmd = []
       \<and> events (snd (download_to_stdout e self remote_path stdout stderr logger w)) =
           events w @ (if logger then [LogInfo ''Download command: '' cmd] else [])
             @ (if program e cmd (stdin_data w) (outside w) = None then []
                else [Spawned cmd InheritedStdin stdout stderr])"
proof -
  from init_Inr [OF assms(1)] assms(2) have c: "download_cmd self remote_path = Inr cmd"
    by (auto simp: download_cmd_def)
  have n: "length cmd = 5" by (simp add: assms(2))
  have f: "buffer_flags cmd = []"
    by (simp add: assms(2) buffer_flags_def is_buffer_flag_def)
  show ?thesis by (intro conjI c n f download_to_stdout_events [OF c])
qed

theorem download_cmd_shape_witness:
  "download_cmd (example_client SFTP) ''backup/full.xbstream'' =
     Inr [''/tools/filestream_client'', ''--meta.action=DownloadSsh'', ''--meta.sink=backup'',
          ''--meta.filename=backup/full.xbstream'', ''--hostInfoFilePath=/tools/hostinfo.json'']
   \<and> events (snd (download_to_stdout (example_env (example_program 0)) (example_client SFTP)
                     ''backup/full.xbstream'' InheritedStdout SysStderr False example_world)) =
       [Spawned [''/tools/filestream_client'', ''--meta.action=DownloadSsh'', ''--meta.sink=backup'',
                 ''--meta.filename=backup/full.xbstream'',
                 ''--hostInfoFilePath=/tools/hostinfo.json'']
          InheritedStdin InheritedStdout SysStderr]"
  using download_cmd_shape [where b = SFTP and remote_path = "''backup/full.xbstream''"
      and e = "example_env (example_program 0)" and stdout = InheritedStdout
      and stderr = SysStderr and logger = False and w = example_world, OF init_example refl]
  by (simp add: example_context_def example_env_def example_program_def example_world_def
                executable_def)

text \<open>
  C5. With \<open>is_string_input\<close> true and no size hint, the command of \<open>upload_from_stdin\<close> is
  the five fixed elements followed by \<open>--meta.ossBufferSize=102400\<close> on OSS, by
  \<open>--meta.minioBufferSize=102400\<close> on S3, and by nothing on SFTP, where it has no
  buffer-size flag at all; and this is the command the operation logs and starts.
\<close>

theorem upload_cmd_string_input:
  assumes "init ctx (Member b) snk = Inr self"
    and "cmd = [ctx_filestream_client ctx,
                ''--meta.action='' @ action_value
                   (case b of OSS \<Rightarrow> UploadOss | SFTP \<Rightarrow> UploadSsh | S3 \<Rightarrow> UploadMinio),
                ''--meta.sink='' @ snk,
                ''--meta.filename='' @ remote_path,
                ''--hostInfoFilePath='' @ ctx_host_info ctx]
               @ (case b of OSS \<Rightarrow> [''--meta.ossBufferSize=102400'']
                          | SFTP \<Rightarrow> []
                          | S3 \<Rightarrow> [''--meta.minioBufferSize=102400''])"
  shows "upload_cmd self remote_path True '''' = Inr cmd
       \<and> buffer_flags cmd = (case b of OSS \<Rightarrow> [''--meta.ossBufferSize=102400'']
                                     | SFTP \<Rightarrow> []
                                     | S3 \<Rightarrow> [''--meta.minioBufferSize=102400''])
       \<and> events (snd (upload_from_stdin e self remote_path stdin stderr logger True '''' w)) =
           events w @ (if logger then [LogInfo ''Upload command: '' cmd] else [])
             @ (if program e cmd (read_stream stdin w) (outside w) = None then []
                else [Spawned cmd stdin InheritedStdout stderr])"
proof -
  from init_Inr [OF assms(1)] assms(2) have c: "upload_cmd self remote_path True '''' = Inr cmd"
    by (cases b) (auto simp: upload_cmd_def)
  have f: "buffer_flags cmd = (case b of OSS \<Rightarrow> [''--meta.ossBufferSize=102400'']
                                     | SFTP \<Rightarrow> []
                                     | S3 \<Rightarrow> [''--meta.minioBufferSize=102400''])"
    by (cases b) (simp_all add: assms(2) buffer_flags_def is_buffer_flag_def)
  show ?thesis by (intro conjI c f upload_from_stdin_events [OF c])
qed

theorem upload_cmd_string_input_witness:
  "upload_cmd (example_client OSS) ''meta/binlog.idx'' True '''' =
     Inr [''/tools/filestream_client'', ''--meta.action=uploadOss'', ''--meta.sink=backup'',
          ''--meta.filename=meta/binlog.idx'', ''--hostInfoFilePath=/tools/hostinfo.json'',
          ''--meta.ossBufferSize=102400'']
   \<and> upload_cmd (example_client S3) ''meta/binlog.idx'' True '''' =
     Inr [''/tools/filestream_client'', ''--meta.action=uploadMinio'', ''--meta.sink=backup'',
          ''--meta.filename=meta/binlog.idx'', ''--hostInfoFilePath=/tools/hostinfo.json'',
          ''--meta.minioBufferSize=102400'']
   \<and> upload_cmd (example_client SFTP) ''meta/binlog.idx'' True '''' =
     Inr [''/tools/filestream_client'', ''--meta.action=uploadSsh'', ''--meta.sink=backup'',
          ''--meta.filename=meta/binlog.idx'', ''--hostInfoFilePath=/tools/hostinfo.json'']"
  using upload_cmd_string_input [where b = OSS and remote_path = "''meta/binlog.idx''",
          OF init_example refl, THEN conjunct1]
        upload_cmd_string_input [where b = S3 and remote_path = "''meta/binlog.idx''",
          OF init_example refl, THEN conjunct1]
        upload_cmd_string_input [where b = SFTP and remote_path = "''meta/binlog.idx''",
          OF init_example refl, THEN conjunct1]
  by (simp add: example_context_def)

text \<open>
  C1 as stated fails on SFTP: with the size hint \<open>4096\<close> the command of an SFTP client has
  no buffer-size flag.
\<close>

theorem upload_cmd_file_size_sftp:
  "init example_context (Member SFTP) ''backup'' = Inr (example_client SFTP)
   \<and> upload_cmd (example_client SFTP) ''backup/full.xbstream'' False ''4096'' =
       Inr [''/tools/filestream_client'', ''--meta.action=uploadSsh'', ''--meta.sink=backup'',
            ''--meta.filename=backup/full.xbstream'', ''--hostInfoFilePath=/tools/hostinfo.json'']
   \<and> buffer_flags [''/tools/filestream_client'', ''--meta.action=uploadSsh'',
                     ''--meta.sink=backup'', ''--meta.filename=backup/full.xbstream'',
                     ''--hostInfoFilePath=/tools/hostinfo.json''] = []"
  by (simp add: init_def init_action_def example_context_def example_client_def upload_cmd_def
                buffer_flags_def is_buffer_flag_def)

text \<open>
  C1, amended. With a non-empty size hint, the command of \<open>upload_from_stdin\<close> ends with
  the buffer-size flag of the backend carrying exactly the hint on OSS and on S3, and has
  no flag for the hint on SFTP. With \<open>is_string_input\<close> true as well, the flag with 102400
  stays in the command and the flag with the hint is appended after it, as the last
  argument.
\<close>

theorem upload_cmd_file_size:
  assumes "init ctx (Member b) snk = Inr self"
    and "file_size \<noteq> ''''"
    and "inline = (if is_string_input
                   then (case b of OSS \<Rightarrow> [''--meta.ossBufferSize=102400'']
                                 | SFTP \<Rightarrow> []
                                 | S3 \<Rightarrow> [''--meta.minioBufferSize=102400''])
                   else [])"
    and "hint = (case b of OSS \<Rightarrow> [''--meta.ossBufferSize='' @ file_size]
                         | SFTP \<Rightarrow> []
                         | S3 \<Rightarrow> [''--meta.minioBufferSize='' @ file_size])"
    and "cmd = [ctx_filestream_client ctx,
                ''--meta.action='' @ action_value
                   (case b of OSS \<Rightarrow> UploadOss | SFTP \<Rightarrow> UploadSsh | S3 \<Rightarrow> UploadMinio),
                ''--meta.sink='' @ snk,
                ''--meta.filename='' @ remote_path,
                ''--hostInfoFilePath='' @ ctx_host_info ctx] @ inline @ hint"
  shows "upload_cmd self remote_path is_string_input file_size = Inr cmd
       \<and> buffer_flags cmd = inline @ hint
       \<and> (b \<noteq> SFTP \<longrightarrow> [last cmd] = hint)
       \<and> events (snd (upload_from_stdin e self remote_path stdin stderr logger
                         is_string_input file_size w)) =
           events w @ (if logger then [LogInfo ''Upload command: '' cmd] else [])
             @ (if program e cmd (read_stream stdin w) (outside w) = None then []
                else [Spawned cmd stdin InheritedStdout stderr])"
proof -
  from init_Inr [OF assms(1)] assms(2-5)
  have c: "upload_cmd self remote_path is_string_input file_size = Inr cmd"
    by (cases b) (auto simp: upload_cmd_def)
  have f: "buffer_flags cmd = inline @ hint"
    by (cases b) (simp_all add: assms(3-5) buffer_flags_def is_buffer_flag_def)
  have l: "b \<noteq> SFTP \<longrightarrow> [last cmd] = hint"
    by (cases b) (simp_all add: assms(3-5))
  show ?thesis by (intro conjI c f l upload_from_stdin_events [OF c])
qed

theorem upload_cmd_file_size_witness:
  "upload_cmd (example_client OSS) ''backup/full.xbstream'' False ''4096'' =
     Inr [''/tools/filestream_client'', ''--meta.action=uploadOss'', ''--meta.sink=backup'',
          ''--meta.filename=backup/full.xbstream'', ''--hostInfoFilePath=/tools/hostinfo.json'',
          ''--meta.ossBufferSize=4096'']
   \<and> upload_cmd (example_client S3) ''backup/full.xbstream'' True ''4096'' =
     Inr [''/tools/filestream_client'', ''--meta.action=uploadMinio'', ''--meta.sink=backup'',
          ''--meta.filename=backup/full.xbstream'', ''--hostInfoFilePath=/tools/hostinfo.json'',
          ''--meta.minioBufferSize=102400'', ''--meta.minioBufferSize=4096'']
   \<and> buffer_flags [''/tools/filestream_client'', ''--meta.action=uploadMinio'',
          ''--meta.sink=backup'', ''--meta.filename=backup/full.xbstream'',
          ''--hostInfoFilePath=/tools/hostinfo.json'',
          ''--meta.minioBufferSize=102400'', ''--meta.minioBufferSize=4096''] =
       [''--meta.minioBufferSize=102400'', ''--meta.minioBufferSize=4096'']
   \<and> events (snd (upload_from_stdin (example_env (example_program 0)) (example_client S3)
                     ''backup/full.xbstream'' (FileReader ''/data/a.txt'') SysStderr False
                     True ''4096'' example_world)) =
       [Spawned [''/tools/filestream_client'', ''--meta.action=uploadMinio'',
                 ''--meta.sink=backup'', ''--meta.filename=backup/full.xbstream'',
                 ''--hostInfoFilePath=/tools/hostinfo.json'',
                 ''--meta.minioBufferSize=102400'', ''--meta.minioBufferSize=4096'']
          (FileReader ''/data/a.txt'') InheritedStdout SysStderr]"
proof -
  have ne: "''4096'' \<noteq> ''''" by simp
  show ?thesis
    using upload_cmd_file_size [where b = OSS and is_string_input = False
            and remote_path = "''backup/full.xbstream''", OF init_example ne refl refl refl,
            THEN conjunct1]
          upload_cmd_file_size [where b = S3 and is_string_input = True
            and remote_path = "''backup/full.xbstream''"
            and e = "example_env (example_program 0)" and stdin = "FileReader ''/data/a.txt''"
            and stderr = SysStderr and logger = False and w = example_world,
            OF init_example ne refl refl refl]
    by (simp add: example_context_def example_env_def example_program_def example_world_def
                  executable_def)
qed

text \<open>
  C2. When the child of \<open>upload_from_stdin\<close> or of \<open>download_to_stdout\<close> exits with code 0
  the call returns normally; when it exits with any other code the call raises
  \<open>FilestreamException\<close> with the decimal text of that code at the end of its message.
  The text determines the code (\<open>str_int\<close> is injective), so no two codes are merged.
\<close>

theorem exit_code_contract:
  assumes "upload_cmd self remote_path is_string_input file_size = Inr ucmd"
    and "program e ucmd (read_stream stdin w) (outside w) = Some (Exited urc uout ux)"
    and "download_cmd self remote_path = Inr dcmd"
    and "program e dcmd (stdin_data w) (outside w) = Some (Exited drc dout dx)"
  shows "fst (upload_from_stdin e self remote_path stdin stderr logger is_string_input
                file_size w) =
           (if urc = 0 then Inr ()
            else Inl (FilestreamException (''Failed to upload, return code: '' @ str_int urc)))
       \<and> fst (download_to_stdout e self remote_path stdout stderr logger w) =
           (if drc = 0 then Inr ()
            else Inl (FilestreamException (''Failed to download, return code: '' @ str_int drc)))
       \<and> inj str_int"
proof -
  have i: "inj str_int" by (rule injI) (rule str_int_inj)
  show ?thesis
    by (simp add: upload_from_stdin_exited [OF assms(1,2)]
                  download_to_stdout_exited [OF assms(3,4)] i)
qed

theorem exit_code_contract_witness:
  "fst (upload_from_stdin (example_env (example_program 3)) (example_client OSS)
          ''backup/full.xbstream'' (FileReader ''/data/a.txt'') SysStderr False False ''3''
          example_world) =
     Inl (FilestreamException ''Failed to upload, return code: 3'')
   \<and> fst (download_to_stdout (example_env (example_program 3)) (example_client OSS)
          ''backup/full.xbstream'' InheritedStdout SysStderr False example_world) =
     Inl (FilestreamException ''Failed to download, return code: 3'')
   \<and> fst (upload_from_stdin (example_env (example_program 0)) (example_client OSS)
          ''backup/full.xbstream'' (FileReader ''/data/a.txt'') SysStderr False False ''3''
          example_world) = Inr ()
   \<and> fst (download_to_stdout (example_env (example_program (- 9))) (example_client OSS)
          ''backup/full.xbstream'' InheritedStdout SysStderr False example_world) =
     Inl (FilestreamException ''Failed to download, return code: -9'')"
proof -
  let ?u = "[''/tools/filestream_client'', ''--meta.action=uploadOss'', ''--meta.sink=backup'',
             ''--meta.filename=backup/full.xbstream'',
             ''--hostInfoFilePath=/tools/hostinfo.json'', ''--meta.ossBufferSize=3'']"
  let ?d = "[''/tools/filestream_client'', ''--meta.action=downloadOss'', ''--meta.sink=backup'',
             ''--meta.filename=backup/full.xbstream'',
             ''--hostInfoFilePath=/tools/hostinfo.json'']"
  have u: "upload_cmd (example_client OSS) ''backup/full.xbstream'' False ''3'' = Inr ?u"
    by (simp add: upload_cmd_def example_client_def)
  have d: "download_cmd (example_client OSS) ''backup/full.xbstream'' = Inr ?d"
    by (simp add: download_cmd_def example_client_def)
  have pu: "program (example_env (example_program rc)) ?u
              (read_stream (FileReader ''/data/a.txt'') example_world) (outside example_world) =
            Some (Exited rc [] [''abc''])" for rc
    by (simp add: example_env_def example_program_def example_world_def executable_def
                  read_stream_def)
  have pd: "program (example_env (example_program rc)) ?d
              (stdin_data example_world) (outside example_world) =
            Some (Exited rc [] [''typed''])" for rc
    by (simp add: example_env_def example_program_def example_world_def executable_def)
  show ?thesis
    using exit_code_contract [OF u pu d pd, of 3 SysStderr False InheritedStdout]
          exit_code_contract [OF u pu d pd, of 0 SysStderr False InheritedStdout]
          exit_code_contract [OF u pu d pd, of "- 9" SysStderr False InheritedStdout]
    by (simp add: str_int_def str_nat.simps digit_def)
qed

text \<open>
  C6. \<open>upload_from_file\<close> opens the local file for reading; when that succeeds it calls
  \<open>upload_from_stdin\<close> on the open file with the decimal text of the file's size in bytes
  as \<open>file_size\<close> and \<open>is_string_input\<close> false, and returns what that call returns; when
  the file cannot be opened it raises the error of \<open>open\<close> and changes nothing. In every
  case the set of open file handles is afterwards what it was before.
\<close>

theorem upload_from_file_delegates:
  "(can_read e local \<and> files w local = Some content \<longrightarrow>
      fst (upload_from_file e self remote local stderr logger w) =
        fst (upload_from_stdin e self remote (FileReader local) stderr logger False
               (str_nat (length content)) (w\<lparr>open_handles := local # open_handles w\<rparr>))
      \<and> snd (upload_from_file e self remote local stderr logger w) =
        close_file local
          (snd (upload_from_stdin e self remote (FileReader local) stderr logger False
                  (str_nat (length content)) (w\<lparr>open_handles := local # open_handles w\<rparr>))))
   \<and> (\<not> (can_read e local \<and> files w local \<noteq> None) \<longrightarrow>
        upload_from_file e self remote local stderr logger w = (Inl (OSError local), w))
   \<and> open_handles (snd (upload_from_file e self remote local stderr logger w)) = open_handles w"
proof (cases "can_read e local \<and> files w local \<noteq> None")
  case True
  then obtain c where c: "files w local = Some c" by auto
  let ?w1 = "w\<lparr>open_handles := local # open_handles w\<rparr>"
  let ?U = "upload_from_stdin e self remote (FileReader local) stderr logger False
              (str_nat (length c)) ?w1"
  from True c have u: "upload_from_file e self remote local stderr logger w =
                         (fst ?U, close_file local (snd ?U))"
    by (simp add: upload_from_file_opened)
  have "open_handles (snd ?U) = local # open_handles w"
    by (simp add: upload_from_stdin_handles)
  then have h: "open_handles (snd (upload_from_file e self remote local stderr logger w)) =
                  open_handles w"
    by (simp add: u close_file_def)
  from True c u h show ?thesis by simp
next
  case False
  then have "upload_from_file e self remote local stderr logger w = (Inl (OSError local), w)"
    by (rule upload_from_file_unopened)
  with False show ?thesis by auto
qed

theorem upload_from_file_delegates_witness:
  "upload_from_file (example_env (example_program 0)) (example_client OSS)
      ''backup/a.txt'' ''/data/a.txt'' SysStderr False example_world =
     (Inr (),
      example_world\<lparr>outside := [''abc''],
        events := [Spawned [''/tools/filestream_client'', ''--meta.action=uploadOss'',
                            ''--meta.sink=backup'', ''--meta.filename=backup/a.txt'',
                            ''--hostInfoFilePath=/tools/hostinfo.json'',
                            ''--meta.ossBufferSize=3'']
                     (FileReader ''/data/a.txt'') InheritedStdout SysStderr]\<rparr>)
   \<and> upload_from_file (example_env (example_program 0)) (example_client OSS)
        ''backup/a.txt'' ''/data/missing.txt'' SysStderr False example_world =
       (Inl (OSError ''/data/missing.txt''), example_world)
   \<and> open_handles (snd (upload_from_file (example_env (example_program 7)) (example_client OSS)
        ''backup/a.txt'' ''/data/a.txt'' SysStderr False example_world)) = []"
proof -
  let ?e = "example_env (example_program 0)"
  let ?u = "[''/tools/filestream_client'', ''--meta.action=uploadOss'', ''--meta.sink=backup'',
             ''--meta.filename=backup/a.txt'', ''--hostInfoFilePath=/tools/hostinfo.json'',
             ''--meta.ossBufferSize=3'']"
  let ?w1 = "example_world\<lparr>open_handles := ''/data/a.txt'' # open_handles example_world\<rparr>"
  have r: "can_read ?e ''/data/a.txt'' \<and> files example_world ''/data/a.txt'' = Some ''abc''"
    by (simp add: example_env_def example_world_def)
  have m: "\<not> (can_read ?e ''/data/missing.txt''
              \<and> files example_world ''/data/missing.txt'' \<noteq> None)"
    by (simp add: example_world_def)
  have u: "upload_cmd (example_client OSS) ''backup/a.txt'' False (str_nat (length ''abc'')) =
             Inr ?u"
    by (simp add: upload_cmd_def example_client_def str_nat.simps digit_def)
  have p: "program ?e ?u (read_stream (FileReader ''/data/a.txt'') ?w1) (outside ?w1) =
             Some (Exited 0 [] [''abc''])"
    by (simp add: example_env_def example_program_def example_world_def executable_def
                  read_stream_def)
  have s: "upload_from_stdin ?e (example_client OSS) ''backup/a.txt''
             (FileReader ''/data/a.txt'') SysStderr False False (str_nat (length ''abc'')) ?w1 =
           (Inr (), ?w1\<lparr>outside := [''abc''],
                     events := [Spawned ?u (FileReader ''/data/a.txt'') InheritedStdout SysStderr]\<rparr>)"
    by (subst upload_from_stdin_exited [OF u p]) (simp add: example_world_def)
  let ?U = "upload_from_stdin ?e (example_client OSS) ''backup/a.txt''
              (FileReader ''/data/a.txt'') SysStderr False False (str_nat (length ''abc'')) ?w1"
  let ?F = "upload_from_file ?e (example_client OSS) ''backup/a.txt'' ''/data/a.txt'' SysStderr
              False example_world"
  have a0: "fst ?F = fst ?U \<and> snd ?F = close_file ''/data/a.txt'' (snd ?U)"
    using upload_from_file_delegates [of ?e "''/data/a.txt''" example_world "''abc''"
            "example_client OSS" "''backup/a.txt''" SysStderr False] r
    by blast
  have a: "?F =
           (Inr (), example_world\<lparr>outside := [''abc''],
              events := [Spawned ?u (FileReader ''/data/a.txt'') InheritedStdout SysStderr]\<rparr>)"
    using a0 [unfolded s] by (simp add: prod_eq_iff close_file_def example_world_def)
  have b: "upload_from_file ?e (example_client OSS) ''backup/a.txt'' ''/data/missing.txt''
             SysStderr False example_world = (Inl (OSError ''/data/missing.txt''), example_world)"
    using upload_from_file_delegates [of ?e "''/data/missing.txt''" example_world "''''"
            "example_client OSS" "''backup/a.txt''" SysStderr False] m
    by blast
  have c: "open_handles (snd (upload_from_file (example_env (example_program 7))
             (example_client OSS) ''backup/a.txt'' ''/data/a.txt'' SysStderr False
             example_world)) = []"
    using upload_from_file_delegates [of "example_env (example_program 7)" "''/data/a.txt''"
            example_world "''abc''" "example_client OSS" "''backup/a.txt''" SysStderr False]
    by (simp add: example_world_def)
  from a b c show ?thesis by (intro conjI)
qed

text \<open>
  C7. When the local path cannot be opened for writing, \<open>download_to_file\<close> raises the
  error of \<open>open\<close> and leaves the world as it was: no command is logged and no child
  process is started.
\<close>

theorem download_to_file_unwritable:
  "\<not> can_write e local \<Longrightarrow>
     download_to_file e self remote local stderr logger w = (Inl (OSError local), w)
     \<and> events (snd (download_to_file e self remote local stderr logger w)) = events w"
  by (simp add: download_to_file_def open_w_def)

theorem download_to_file_unwritable_witness:
  "\<not> can_write (example_env (example_program 0)) ''/proc/version''
   \<and> download_to_file (example_env (example_program 0)) (example_client S3)
        ''backup/full.xbstream'' ''/proc/version'' SysStderr True example_world =
       (Inl (OSError ''/proc/version''), example_world)
   \<and> events (snd (download_to_file (example_env (example_program 0)) (example_client S3)
        ''backup/full.xbstream'' ''/proc/version'' SysStderr True example_world)) = []"
proof -
  have h: "\<not> can_write (example_env (example_program 0)) ''/proc/version''"
    by (simp add: example_env_def)
  show ?thesis
    using h download_to_file_unwritable [OF h, of "example_client S3" "''backup/full.xbstream''"
            SysStderr True example_world]
    by (simp add: example_world_def)
qed

text \<open>
  C8 as stated fails on SFTP: \<open>upload_from_string "remote/path.txt" "hello"\<close> starts
  \<^verbatim>\<open>echo hello\<close> and then an upload child that reads \<open>hello\<close> and a newline from the
  pipe, but the command of that child has no buffer-size flag.
\<close>

theorem upload_from_string_sftp:
  "upload_from_string (example_env (example_program 0)) (example_client SFTP)
      ''remote/path.txt'' ''hello'' SysStderr False example_world =
     (Inr (),
      example_world\<lparr>outside := [''hello\<newline>''],
        events := [Spawned [''echo'', ''hello''] InheritedStdin PipeWriter InheritedStderr,
                   Spawned [''/tools/filestream_client'', ''--meta.action=uploadSsh'',
                            ''--meta.sink=backup'', ''--meta.filename=remote/path.txt'',
                            ''--hostInfoFilePath=/tools/hostinfo.json'']
                     (PipeReader ''hello\<newline>'') InheritedStdout SysStderr]\<rparr>)
   \<and> buffer_flags [''/tools/filestream_client'', ''--meta.action=uploadSsh'',
                     ''--meta.sink=backup'', ''--meta.filename=remote/path.txt'',
                     ''--hostInfoFilePath=/tools/hostinfo.json''] = []"
  by (simp add: upload_from_string_def upload_from_stdin_def upload_cmd_def Popen_def
                example_env_def example_program_def example_client_def executable_def
                read_stream_def write_stream_def buffer_flags_def is_buffer_flag_def Let_def)
     (simp add: example_world_def)

text \<open>
  C8, amended. On a machine where \<^verbatim>\<open>echo\<close> prints its argument followed by a newline,
  \<open>upload_from_string remote s\<close> is \<open>upload_from_stdin\<close> on the pipe that delivers exactly
  \<open>s\<close> and the newline, with \<open>is_string_input\<close> true and no size hint: the upload child
  is started after \<^verbatim>\<open>echo\<close>, reads those bytes, and its command carries the flag with
  102400 on OSS and on S3 and no buffer-size flag on SFTP.
\<close>

theorem upload_from_string_pipes_echo:
  assumes "init ctx (Member b) snk = Inr self"
    and "program e [''echo'', s] (stdin_data w) (outside w) =
           Some (Exited erc (s @ ''\<newline>'') ex)"
    and "cmd = [ctx_filestream_client ctx,
                ''--meta.action='' @ action_value
                   (case b of OSS \<Rightarrow> UploadOss | SFTP \<Rightarrow> UploadSsh | S3 \<Rightarrow> UploadMinio),
                ''--meta.sink='' @ snk,
                ''--meta.filename='' @ remote,
                ''--hostInfoFilePath='' @ ctx_host_info ctx]
               @ (case b of OSS \<Rightarrow> [''--meta.ossBufferSize=102400'']
                          | SFTP \<Rightarrow> []
                          | S3 \<Rightarrow> [''--meta.minioBufferSize=102400''])"
  shows "upload_from_string e self remote s stderr logger w =
           upload_from_stdin e self remote (PipeReader (s @ ''\<newline>'')) stderr logger True ''''
             (w\<lparr>outside := ex,
                events := events w
                  @ [Spawned [''echo'', s] InheritedStdin PipeWriter InheritedStderr]\<rparr>)
       \<and> upload_cmd self remote True '''' = Inr cmd
       \<and> events (snd (upload_from_string e self remote s stderr logger w)) =
           events w @ [Spawned [''echo'', s] InheritedStdin PipeWriter InheritedStderr]
             @ (if logger then [LogInfo ''Upload command: '' cmd] else [])
             @ (if program e cmd (s @ ''\<newline>'') ex = None then []
                else [Spawned cmd (PipeReader (s @ ''\<newline>'')) InheritedStdout stderr])"
proof -
  let ?w1 = "w\<lparr>outside := ex,
               events := events w
                 @ [Spawned [''echo'', s] InheritedStdin PipeWriter InheritedStderr]\<rparr>"
  have d: "upload_from_string e self remote s stderr logger w =
             upload_from_stdin e self remote (PipeReader (s @ ''\<newline>'')) stderr logger True ''''
               ?w1"
    using assms(2)
    by (simp add: upload_from_string_def Popen_def read_stream_def write_stream_def)
  from init_Inr [OF assms(1)] assms(3) have c: "upload_cmd self remote True '''' = Inr cmd"
    by (cases b) (auto simp: upload_cmd_def)
  have ev: "events (snd (upload_from_string e self remote s stderr logger w)) =
           events w @ [Spawned [''echo'', s] InheritedStdin PipeWriter InheritedStderr]
             @ (if logger then [LogInfo ''Upload command: '' cmd] else [])
             @ (if program e cmd (s @ ''\<newline>'') ex = None then []
                else [Spawned cmd (PipeReader (s @ ''\<newline>'')) InheritedStdout stderr])"
    by (simp add: d upload_from_stdin_events [OF c] read_stream_def)
  show ?thesis by (intro conjI d c ev)
qed

theorem upload_from_string_pipes_echo_witness:
  "events (snd (upload_from_string (example_env (example_program 0)) (example_client OSS)
                  ''remote/path.txt'' ''hello'' SysStderr False example_world)) =
     [Spawned [''echo'', ''hello''] InheritedStdin PipeWriter InheritedStderr,
      Spawned [''/tools/filestream_client'', ''--meta.action=uploadOss'',
               ''--meta.sink=backup'', ''--meta.filename=remote/path.txt'',
               ''--hostInfoFilePath=/tools/hostinfo.json'', ''--meta.ossBufferSize=102400'']
        (PipeReader ''hello\<newline>'') InheritedStdout SysStderr]"
proof -
  have p: "program (example_env (example_program 0)) [''echo'', ''hello'']
             (stdin_data example_world) (outside example_world) =
           Some (Exited 0 (''hello'' @ ''\<newline>'') [])"
    by (simp add: example_env_def example_program_def example_world_def executable_def)
  show ?thesis
    using upload_from_string_pipes_echo [where b = OSS and remote = "''remote/path.txt''"
            and stderr = SysStderr and logger = False, OF init_example p refl,
            THEN conjunct2, THEN conjunct2]
    by (simp add: example_context_def example_env_def example_program_def example_world_def
                  executable_def)
qed

text \<open>
  C9 as stated fails: with a binary that copies its input to its output, uploading
  \<^verbatim>\<open>/data/a.txt\<close> (content \<open>abc\<close>) and downloading into \<^verbatim>\<open>/data/b.txt\<close> both return
  normally, but the second file then holds what was on the caller's standard input
  (\<open>typed\<close>), not \<open>abc\<close>.
\<close>

theorem round_trip_echo_differs:
  "fst (upload_from_file (example_env echoing_program) (example_client OSS)
          ''backup/a.txt'' ''/data/a.txt'' SysStderr False example_world) = Inr ()
   \<and> fst (download_to_file (example_env echoing_program) (example_client OSS)
          ''backup/a.txt'' ''/data/b.txt'' SysStderr False
          (snd (upload_from_file (example_env echoing_program) (example_client OSS)
                  ''backup/a.txt'' ''/data/a.txt'' SysStderr False example_world))) = Inr ()
   \<and> files (snd (download_to_file (example_env echoing_program) (example_client OSS)
          ''backup/a.txt'' ''/data/b.txt'' SysStderr False
          (snd (upload_from_file (example_env echoing_program) (example_client OSS)
                  ''backup/a.txt'' ''/data/a.txt'' SysStderr False example_world))))
        ''/data/b.txt'' = Some ''typed''
   \<and> files (snd (download_to_file (example_env echoing_program) (example_client OSS)
          ''backup/a.txt'' ''/data/b.txt'' SysStderr False
          (snd (upload_from_file (example_env echoing_program) (example_client OSS)
                  ''backup/a.txt'' ''/data/a.txt'' SysStderr False example_world))))
        ''/data/a.txt'' = Some ''abc''"
  by (simp add: upload_from_file_def download_to_file_def upload_from_stdin_def
                download_to_stdout_def upload_cmd_def download_cmd_def Popen_def open_r_def
                open_w_def getsize_def close_file_def read_stream_def write_stream_def
                example_env_def echoing_program_def example_client_def example_world_def
                Let_def)

text \<open>
  C9, amended. With a binary that copies its input to its output and returns 0, a readable
  file A and a writable path B: \<open>upload_from_file\<close> returns normally and A's bytes come
  out on the caller's standard output (the upload child inherits it); \<open>download_to_file\<close>
  then returns normally and B holds exactly the bytes of the caller's standard input (the
  download child inherits it). So B reproduces A's content exactly when the caller's
  standard input supplies that content.
\<close>

theorem round_trip_echo_binary:
  assumes "init ctx (Member b) snk = Inr self"
    and "program e = (\<lambda>cmd input x. Some (Exited 0 input x))"
    and "can_read e A" and "files w A = Some content" and "can_write e B"
    and "w1 = snd (upload_from_file e self remote A stderr logger w)"
    and "w2 = snd (download_to_file e self remote B stderr logger w1)"
  shows "fst (upload_from_file e self remote A stderr logger w) = Inr ()
       \<and> stdout_data w1 = stdout_data w @ content
       \<and> fst (download_to_file e self remote B stderr logger w1) = Inr ()
       \<and> files w2 B = Some (stdin_data w)
       \<and> (files w2 B = Some content \<longleftrightarrow> stdin_data w = content)"
proof -
  let ?wo = "w\<lparr>open_handles := A # open_handles w\<rparr>"
  obtain ucmd where u: "upload_cmd self remote False (str_nat (length content)) = Inr ucmd"
    using init_upload_cmd [OF assms(1)] by blast
  obtain dcmd where d: "download_cmd self remote = Inr dcmd"
    using init_download_cmd [OF assms(1)] by blast
  have pu: "program e ucmd (read_stream (FileReader A) ?wo) (outside ?wo) =
              Some (Exited 0 content (outside w))"
    using assms(4) by (simp add: assms(2) read_stream_def)
  have up: "upload_from_file e self remote A stderr logger w =
              (Inr (), close_file A
                 (?wo\<lparr>outside := outside w,
                      events := events ?wo
                        @ (if logger then [LogInfo ''Upload command: '' ucmd] else [])
                        @ [Spawned ucmd (FileReader A) InheritedStdout stderr],
                      stdout_data := stdout_data ?wo @ content\<rparr>))"
    by (simp add: upload_from_file_opened [OF assms(3,4)] upload_from_stdin_exited [OF u pu])
  from up assms(6) have s1: "stdout_data w1 = stdout_data w @ content"
    and i1: "stdin_data w1 = stdin_data w"
    by (simp_all add: close_file_def)
  let ?wd = "w1\<lparr>files := (files w1)(B \<mapsto> []), open_handles := B # open_handles w1\<rparr>"
  have pd: "program e dcmd (stdin_data ?wd) (outside ?wd) =
              Some (Exited 0 (stdin_data w1) (outside w1))"
    by (simp add: assms(2))
  have down: "download_to_file e self remote B stderr logger w1 =
                (Inr (), close_file B
                   (write_stream (FileWriter B) (stdin_data w1)
                      (?wd\<lparr>outside := outside w1,
                           events := events ?wd
                             @ (if logger then [LogInfo ''Download command: '' dcmd] else [])
                             @ [Spawned dcmd InheritedStdin (FileWriter B) stderr]\<rparr>)))"
    by (simp add: download_to_file_opened [OF assms(5)] download_to_stdout_exited [OF d pd])
  from down assms(7) i1 have f: "files w2 B = Some (stdin_data w)"
    by (simp add: close_file_def write_stream_def)
  from up s1 down f show ?thesis by simp
qed

theorem round_trip_echo_binary_witness:
  "files (snd (download_to_file (example_env echoing_program) (example_client S3)
          ''backup/a.txt'' ''/data/b.txt'' SysStderr False
          (snd (upload_from_file (example_env echoing_program) (example_client S3)
                  ''backup/a.txt'' ''/data/a.txt'' SysStderr False
                  (example_world\<lparr>stdin_data := ''abc''\<rparr>)))))
        ''/data/b.txt'' = Some ''abc''
   \<and> stdout_data (snd (upload_from_file (example_env echoing_program) (example_client S3)
                  ''backup/a.txt'' ''/data/a.txt'' SysStderr False
                  (example_world\<lparr>stdin_data := ''abc''\<rparr>))) = ''abc''"
proof -
  have p: "program (example_env echoing_program) = (\<lambda>cmd input x. Some (Exited 0 input x))"
    by (simp add: example_env_def echoing_program_def fun_eq_iff)
  have r: "can_read (example_env echoing_program) ''/data/a.txt''"
    by (simp add: example_env_def)
  have f: "files (example_world\<lparr>stdin_data := ''abc''\<rparr>) ''/data/a.txt'' = Some ''abc''"
    by (simp add: example_world_def)
  have wr: "can_write (example_env echoing_program) ''/data/b.txt''"
    by (simp add: example_env_def)
  show ?thesis
    using round_trip_echo_binary [where b = S3 and remote = "''backup/a.txt''"
            and stderr = SysStderr and logger = False, OF init_example p r f wr refl refl]
    by (simp add: example_world_def)
qed

end
